theory Spec2Isabelle
  imports Main "HOL-Library.Char_ord" "HOL-Library.List_Lexorder"
begin

section \<open>Client: the patient form (PatientForm.jsx)\<close>

text \<open>
  The form keeps three pieces of React state: \<open>formData\<close>, \<open>currentMedication\<close> and
  \<open>currentHerb\<close>. Every text input and select of the form yields a JavaScript string, so
  the fields are strings; a string is falsy exactly when it is empty. A medication and a
  herb object share five keys and differ in the sixth (\<open>indication\<close> versus
  \<open>intended_effect\<close>), which the two extensions of \<open>entry\<close> record.
\<close>

record entry =
  generic_name :: string
  brand_name :: string
  dose :: string
  frequency :: string
  duration :: string

record medication = entry +
  indication :: string

record herb = entry +
  intended_effect :: string

record form_data =
  age :: string
  gender :: string
  is_frail :: bool
  cfs_score :: string
  life_expectancy :: string
  comorbidities :: "string list"
  medications :: "medication list"
  herbs :: "herb list"

text \<open>
  The component state. \<open>alerts\<close> logs the calls of \<open>alert\<close>, and \<open>submitted\<close> the
  arguments with which the \<open>onSubmit\<close> prop has been called (App.jsx passes
  \<open>handlePatientSubmit\<close>, which posts its argument to \<open>/analyze-patient\<close>).
\<close>

record form_state =
  formData :: form_data
  currentMedication :: medication
  currentHerb :: herb
  alerts :: "string list"
  submitted :: "form_data list"

definition emptyMedication :: medication where
  "emptyMedication =
     \<lparr>generic_name = '''', brand_name = '''', dose = '''', frequency = '''',
      duration = ''long_term'', indication = ''''\<rparr>"

definition emptyHerb :: herb where
  "emptyHerb =
     \<lparr>generic_name = '''', brand_name = '''', dose = '''', frequency = '''',
      duration = ''long_term'', intended_effect = ''''\<rparr>"

definition initialFormData :: form_data where
  "initialFormData =
     \<lparr>age = '''', gender = ''female'', is_frail = False, cfs_score = '''',
      life_expectancy = ''2-5_years'', comorbidities = [], medications = [], herbs = []\<rparr>"

definition initialState :: form_state where
  "initialState =
     \<lparr>formData = initialFormData, currentMedication = emptyMedication,
      currentHerb = emptyHerb, alerts = [], submitted = []\<rparr>"

text \<open>
  \<open>handleInputChange\<close> writes \<open>formData[name]\<close>, where \<open>name\<close> is the name attribute of
  the element that fired; the form binds it to the five elements below. The checkbox
  stores \<open>checked\<close>, the others \<open>value\<close>.
\<close>

datatype input_name = Age | Gender | CfsScore | LifeExpectancy | IsFrail

fun handleInputChange :: "input_name \<Rightarrow> string \<Rightarrow> bool \<Rightarrow> form_state \<Rightarrow> form_state" where
  "handleInputChange Age v c st = st\<lparr>formData := (formData st)\<lparr>age := v\<rparr>\<rparr>"
| "handleInputChange Gender v c st = st\<lparr>formData := (formData st)\<lparr>gender := v\<rparr>\<rparr>"
| "handleInputChange CfsScore v c st = st\<lparr>formData := (formData st)\<lparr>cfs_score := v\<rparr>\<rparr>"
| "handleInputChange LifeExpectancy v c st =
     st\<lparr>formData := (formData st)\<lparr>life_expectancy := v\<rparr>\<rparr>"
| "handleInputChange IsFrail v c st = st\<lparr>formData := (formData st)\<lparr>is_frail := c\<rparr>\<rparr>"

definition handleComorbidityToggle :: "string \<Rightarrow> form_state \<Rightarrow> form_state" where
  "handleComorbidityToggle comorbidity st =
     st\<lparr>formData := (formData st)\<lparr>comorbidities :=
        (if comorbidity \<in> set (comorbidities (formData st))
         then filter (\<lambda>c. c \<noteq> comorbidity) (comorbidities (formData st))
         else comorbidities (formData st) @ [comorbidity])\<rparr>\<rparr>"

definition addMedication :: "form_state \<Rightarrow> form_state" where
  "addMedication st =
     (if generic_name (currentMedication st) \<noteq> [] \<and> dose (currentMedication st) \<noteq> []
      then st\<lparr>formData := (formData st)\<lparr>medications :=
                 medications (formData st) @ [currentMedication st]\<rparr>,
              currentMedication := emptyMedication\<rparr>
      else st\<lparr>alerts := alerts st @ [''Please enter at least the generic name and dose'']\<rparr>)"

text \<open>\<open>xs.filter((_, i) => i !== index)\<close>: drop the element at \<open>index\<close>, if there is one.\<close>

fun filter_index :: "'a list \<Rightarrow> nat \<Rightarrow> 'a list" where
  "filter_index [] i = []"
| "filter_index (x # xs) 0 = xs"
| "filter_index (x # xs) (Suc i) = x # filter_index xs i"

definition removeMedication :: "nat \<Rightarrow> form_state \<Rightarrow> form_state" where
  "removeMedication index st =
     st\<lparr>formData := (formData st)\<lparr>medications :=
        filter_index (medications (formData st)) index\<rparr>\<rparr>"

definition addHerb :: "form_state \<Rightarrow> form_state" where
  "addHerb st =
     (if generic_name (currentHerb st) \<noteq> []
      then st\<lparr>formData := (formData st)\<lparr>herbs := herbs (formData st) @ [currentHerb st]\<rparr>,
              currentHerb := emptyHerb\<rparr>
      else st\<lparr>alerts := alerts st @ [''Please enter the herb name'']\<rparr>)"

definition removeHerb :: "nat \<Rightarrow> form_state \<Rightarrow> form_state" where
  "removeHerb index st =
     st\<lparr>formData := (formData st)\<lparr>herbs := filter_index (herbs (formData st)) index\<rparr>\<rparr>"

definition handleSubmit :: "form_state \<Rightarrow> form_state" where
  "handleSubmit st =
     (if age (formData st) = [] \<or> length (medications (formData st)) = 0
      then st\<lparr>alerts := alerts st @ [''Please fill in age and add at least one medication'']\<rparr>
      else st\<lparr>submitted := submitted st @ [formData st]\<rparr>)"

text \<open>
  Everything a user can do to the form. The inline handlers of the entry editors replace
  one field of \<open>currentMedication\<close> or \<open>currentHerb\<close> by a string; \<open>SetCurrentMedication\<close>
  and \<open>SetCurrentHerb\<close> allow any new value, which covers them all.
\<close>

datatype event =
    InputChange input_name string bool
  | ComorbidityToggle string
  | SetCurrentMedication medication
  | SetCurrentHerb herb
  | AddMedication
  | RemoveMedication nat
  | AddHerb
  | RemoveHerb nat
  | Submit

fun handle :: "event \<Rightarrow> form_state \<Rightarrow> form_state" where
  "handle (InputChange n v c) st = handleInputChange n v c st"
| "handle (ComorbidityToggle c) st = handleComorbidityToggle c st"
| "handle (SetCurrentMedication m) st = st\<lparr>currentMedication := m\<rparr>"
| "handle (SetCurrentHerb h) st = st\<lparr>currentHerb := h\<rparr>"
| "handle AddMedication st = addMedication st"
| "handle (RemoveMedication i) st = removeMedication i st"
| "handle AddHerb st = addHerb st"
| "handle (RemoveHerb i) st = removeHerb i st"
| "handle Submit st = handleSubmit st"

fun run :: "event list \<Rightarrow> form_state \<Rightarrow> form_state" where
  "run [] st = st"
| "run (e # es) st = run es (handle e st)"

text \<open>The invariant of the two lists of the form.\<close>

definition form_invariant :: "form_data \<Rightarrow> bool" where
  "form_invariant fd \<longleftrightarrow>
     list_all (\<lambda>m. generic_name m \<noteq> [] \<and> dose m \<noteq> []) (medications fd) \<and>
     list_all (\<lambda>h. generic_name h \<noteq> []) (herbs fd)"

section \<open>Client: the taper modal (TaperModal.jsx, services/api.js)\<close>

text \<open>
  \<open>String.prototype.toLowerCase\<close> is a built-in of the language, not code of the
  repository: the functions of the modal take it as their parameter \<open>toLowerCase\<close>, and
  what is proved of them holds for every function on strings, the built-in among them. On
  a string of ASCII characters the built-in lowers the letters A to Z and leaves the rest;
  that is \<open>asciiLowerCase\<close>, which stands for it at the concrete inputs below, all of them
  ASCII strings.
\<close>

definition lowerChar :: "char \<Rightarrow> char" where
  "lowerChar c =
     (let n = (of_char c :: nat) in if 65 \<le> n \<and> n \<le> 90 then char_of (n + 32) else c)"

definition asciiLowerCase :: "string \<Rightarrow> string" where
  "asciiLowerCase s = map lowerChar s"

text \<open>A medication analysis as the server returns it and the dashboard shows it.\<close>

datatype analysis_type = Medication | Herb

datatype risk_category = RED | YELLOW | GREEN

record medication_analysis =
  name :: string
  type :: analysis_type
  risk_score :: int
  risk_category :: risk_category
  flags :: "string list"
  recommendations :: "string list"
  monitoring_required :: "string list"
  taper_required :: bool

text \<open>
  A taper plan and its steps, with the fields the modal reads. A response of
  \<open>/get-taper-plan\<close> is a plan of this schema, so \<open>steps\<close> is always a list. The
  record is extensible: a plan that carries more fields than the modal reads (a provenance
  marker, say) is a \<open>'a taper_plan_scheme\<close>. The key \<open>dose\<close> of a step is \<open>step_dose\<close>
  here, since \<open>dose\<close> names the field of an entry.
\<close>

record taper_step =
  week :: nat
  step_dose :: string
  percentage_of_original :: nat
  instructions :: string
  monitoring :: string
  withdrawal_symptoms_to_watch :: "string list"

record taper_plan =
  drug_class :: string
  risk_profile :: string
  taper_strategy :: string
  total_duration_weeks :: nat
  steps :: "taper_step list"
  success_indicators :: "string list"
  pause_criteria :: "string list"
  reversal_criteria :: "string list"
  monitoring_schedule :: "(string \<times> string list) list"
  patient_education :: "string list"

text \<open>
  The JSON values that occur in the body of a taper request, and the body itself as the
  list of its keys and values, in the order of the object literal.
\<close>

datatype jsval = JNull | JString string | JStrings "string list"

type_synonym taper_request = "(string \<times> jsval) list"

text \<open>\<open>x || d\<close> for a string \<open>x\<close> that may be undefined.\<close>

definition or_default :: "string option \<Rightarrow> string \<Rightarrow> string" where
  "or_default x d = (case x of None \<Rightarrow> d | Some v \<Rightarrow> if v = [] then d else v)"

definition medData ::
  "(string \<Rightarrow> string) \<Rightarrow> medication_analysis \<Rightarrow> form_data \<Rightarrow> medication option" where
  "medData toLowerCase med patientData =
     find (\<lambda>m. toLowerCase (generic_name m) = toLowerCase (name med))
       (medications patientData)"

definition request ::
  "(string \<Rightarrow> string) \<Rightarrow> medication_analysis \<Rightarrow> form_data \<Rightarrow> taper_request" where
  "request toLowerCase med patientData =
     [(''drug_name'', JString (name med)),
      (''current_dose'',
         JString (or_default (map_option dose (medData toLowerCase med patientData))
                    ''1 tablet'')),
      (''duration_on_medication'',
         JString (or_default (map_option duration (medData toLowerCase med patientData))
                    ''long_term'')),
      (''patient_cfs_score'',
         (if cfs_score patientData = [] then JNull else JString (cfs_score patientData))),
      (''patient_age'', JString (age patientData)),
      (''comorbidities'', JStrings (comorbidities patientData))]"

text \<open>
  The state of the modal, and the requests posted to \<open>/get-taper-plan\<close> so far. The
  server is the function \<open>post\<close>: it answers a request body with a plan, or the call
  throws an error with a message.
\<close>

record 'p modal_state =
  taperPlan :: "'p option"
  loading :: bool
  error :: "string option"
  isAiGenerated :: bool
  posted :: "taper_request list"

definition initialModal :: "'p modal_state" where
  "initialModal =
     \<lparr>taperPlan = None, loading = True, error = None, isAiGenerated = False, posted = []\<rparr>"

definition fetchTaperPlan ::
  "(string \<Rightarrow> string) \<Rightarrow> (taper_request \<Rightarrow> string + 'a taper_plan_scheme) \<Rightarrow>
   medication_analysis \<Rightarrow> form_data \<Rightarrow>
   'a taper_plan_scheme modal_state \<Rightarrow> 'a taper_plan_scheme modal_state" where
  "fetchTaperPlan toLowerCase post med patientData st =
     (let st1 = st\<lparr>loading := True\<rparr>;
          req = request toLowerCase med patientData;
          st2 = st1\<lparr>posted := posted st1 @ [req]\<rparr>;
          st3 = (case post req of
                   Inr plan \<Rightarrow>
                     st2\<lparr>taperPlan := Some plan, isAiGenerated := (length (steps plan) > 4)\<rparr>
                 | Inl message \<Rightarrow> st2\<lparr>error := Some message\<rparr>)
      in st3\<lparr>loading := False\<rparr>)"

section \<open>Engine: criteria matching and risk scoring (spec 4.1, 4.2)\<close>

text \<open>
  Modelled from the spec: the patient profile of the engine (section 3). The engine runs
  behind \<open>/analyze-patient\<close> and is not among the sources; the client above only posts
  to it. The profile has numbers where the form has text.
\<close>

record patient_profile =
  profile_age :: nat
  profile_gender :: string
  profile_is_frail :: bool
  profile_cfs_score :: "nat option"
  profile_life_expectancy :: string
  profile_comorbidities :: "string list"

text \<open>
  Modelled from the spec: the condition predicate of a criterion (the criteria tables and
  their evaluator are not among the sources). Section 4.1 makes it a conjunction of
  sub-checks: comorbidity membership, age at least or at most a threshold, the frailty
  flag, CFS at least a threshold, the fall-history flag derived from the comorbidities,
  and, for STOP criteria, the duration of the medication itself.
\<close>

datatype patient_check =
    HasComorbidity string
  | AgeAtLeast nat
  | AgeAtMost nat
  | Frail
  | CfsAtLeast nat
  | FallHistory

datatype stop_check = OnPatient patient_check | LongTermUse

fun check_patient :: "patient_profile \<Rightarrow> patient_check \<Rightarrow> bool" where
  "check_patient p (HasComorbidity c) = (c \<in> set (profile_comorbidities p))"
| "check_patient p (AgeAtLeast n) = (n \<le> profile_age p)"
| "check_patient p (AgeAtMost n) = (profile_age p \<le> n)"
| "check_patient p Frail = profile_is_frail p"
| "check_patient p (CfsAtLeast n) =
     (case profile_cfs_score p of None \<Rightarrow> False | Some s \<Rightarrow> n \<le> s)"
| "check_patient p FallHistory = (''History of falls'' \<in> set (profile_comorbidities p))"

fun check_stop :: "patient_profile \<Rightarrow> 'a entry_scheme \<Rightarrow> stop_check \<Rightarrow> bool" where
  "check_stop p m (OnPatient c) = check_patient p c"
| "check_stop p m LongTermUse = (duration m = ''long_term'')"

text \<open>
  Modelled from the spec: the records of the STOP and START criteria tables (section 3),
  which are not among the sources.
\<close>

datatype severity = High | Moderate

datatype evidence_strength = Strong | ModerateEvidence

record stop_criterion =
  stop_id :: string
  stop_system :: string
  stop_drug_classes :: "string list"
  stop_condition :: "stop_check list"
  stop_rationale :: string
  stop_severity :: severity
  stop_action :: string

record start_criterion =
  start_id :: string
  start_system :: string
  start_drug_class :: string
  start_condition :: "patient_check list"
  start_indication :: string
  start_recommendation :: string
  start_evidence :: evidence_strength

text \<open>
  Modelled from the spec: drug-class resolution (section 4.1). The alias table maps a
  normalised name to its canonical classes; a name the table does not know resolves to
  no class, never to an error. Both names of an entry are resolved.
\<close>

type_synonym alias_table = "(string \<times> string list) list"

text \<open>
  Modelled from the spec: the normalisation of a name. Sections 4.1 and 4.3 ask for one
  and do not fix it; the model lowers the ASCII letters.
\<close>

definition normalize_name :: "string \<Rightarrow> string" where
  "normalize_name n = asciiLowerCase n"

definition resolve_name :: "alias_table \<Rightarrow> string \<Rightarrow> string list" where
  "resolve_name aliases n =
     (case map_of aliases (normalize_name n) of None \<Rightarrow> [] | Some cs \<Rightarrow> cs)"

definition classes_of :: "alias_table \<Rightarrow> 'a entry_scheme \<Rightarrow> string list" where
  "classes_of aliases m =
     resolve_name aliases (generic_name m) @ resolve_name aliases (brand_name m)"

text \<open>
  Modelled from the spec: \<open>matchStop\<close> (section 4.1). Every STOP criterion whose classes
  meet the classes of the medication and whose condition holds yields a flag, in table
  order.
\<close>

definition stop_applies ::
  "alias_table \<Rightarrow> patient_profile \<Rightarrow> 'a entry_scheme \<Rightarrow> stop_criterion \<Rightarrow> bool" where
  "stop_applies aliases p m c \<longleftrightarrow>
     list_ex (\<lambda>k. k \<in> set (classes_of aliases m)) (stop_drug_classes c) \<and>
     list_all (check_stop p m) (stop_condition c)"

definition matchStop ::
  "stop_criterion list \<Rightarrow> alias_table \<Rightarrow> 'a entry_scheme \<Rightarrow> patient_profile \<Rightarrow>
   stop_criterion list" where
  "matchStop stops aliases m p = filter (stop_applies aliases p m) stops"

text \<open>
  Modelled from the spec: \<open>matchStart\<close> (section 4.1). It runs once over the whole
  medication list; a START criterion yields a recommendation when its condition holds for
  the patient and no listed medication belongs to its drug class.
\<close>

record start_advice =
  advice_id :: string
  advice_system :: string
  advice_drug_class :: string
  advice_indication :: string
  advice_text :: string
  advice_evidence :: evidence_strength

definition advise :: "start_criterion \<Rightarrow> start_advice" where
  "advise c =
     \<lparr>advice_id = start_id c, advice_system = start_system c,
      advice_drug_class = start_drug_class c, advice_indication = start_indication c,
      advice_text = start_recommendation c, advice_evidence = start_evidence c\<rparr>"

definition class_present :: "alias_table \<Rightarrow> 'a entry_scheme list \<Rightarrow> string \<Rightarrow> bool" where
  "class_present aliases meds k \<longleftrightarrow> list_ex (\<lambda>m. k \<in> set (classes_of aliases m)) meds"

definition start_applies ::
  "alias_table \<Rightarrow> 'a entry_scheme list \<Rightarrow> patient_profile \<Rightarrow> start_criterion \<Rightarrow> bool" where
  "start_applies aliases meds p c \<longleftrightarrow>
     list_all (check_patient p) (start_condition c) \<and>
     \<not> class_present aliases meds (start_drug_class c)"

definition matchStart ::
  "start_criterion list \<Rightarrow> alias_table \<Rightarrow> 'a entry_scheme list \<Rightarrow> patient_profile \<Rightarrow>
   start_advice list" where
  "matchStart starts aliases meds p = map advise (filter (start_applies aliases meds p) starts)"

text \<open>
  Modelled from the spec: the risk scorer (section 4.2). The weights are a policy, not
  constants of the engine; the spec names High = 4 and Moderate = 2 as the baseline and
  leaves the two bonuses open. The frailty bonus is read as due when the patient is frail
  and the CFS is at least 6, the age bonus when the age reaches the threshold; each
  applies once per medication. The sum is clamped to 0..10.
\<close>

record scoring_policy =
  high_weight :: int
  moderate_weight :: int
  frailty_bonus :: int
  age_threshold :: nat
  age_bonus :: int
  high_withdrawal_classes :: "string list"
  monitoring_of :: "string \<Rightarrow> string list"

definition flag_weight :: "scoring_policy \<Rightarrow> stop_criterion \<Rightarrow> int" where
  "flag_weight pol f =
     (case stop_severity f of High \<Rightarrow> high_weight pol | Moderate \<Rightarrow> moderate_weight pol)"

definition context_modifier :: "scoring_policy \<Rightarrow> patient_profile \<Rightarrow> int" where
  "context_modifier pol p =
     (if profile_is_frail p \<and> check_patient p (CfsAtLeast 6) then frailty_bonus pol else 0) +
     (if age_threshold pol \<le> profile_age p then age_bonus pol else 0)"

definition clamp_score :: "int \<Rightarrow> int" where
  "clamp_score x = max 0 (min 10 x)"

definition category_of :: "int \<Rightarrow> risk_category" where
  "category_of s = (if s \<ge> 7 then RED else if s \<ge> 4 then YELLOW else GREEN)"

definition score :: "scoring_policy \<Rightarrow> stop_criterion list \<Rightarrow> patient_profile \<Rightarrow> int \<times> risk_category" where
  "score pol fs p =
     (let s = clamp_score (sum_list (map (flag_weight pol) fs) + context_modifier pol p)
      in (s, category_of s))"

text \<open>
  Modelled from the spec: one medication analysis of the orchestrator (section 4.5): the
  flags of \<open>matchStop\<close>, the score and category of \<open>score\<close>, and the taper policy of
  section 4.2 (RED, or YELLOW in a class of high withdrawal risk).
\<close>

definition analyseEntry ::
  "scoring_policy \<Rightarrow> stop_criterion list \<Rightarrow> alias_table \<Rightarrow> analysis_type \<Rightarrow>
   patient_profile \<Rightarrow> 'a entry_scheme \<Rightarrow> medication_analysis" where
  "analyseEntry pol stops aliases ty p m =
     (let fs = matchStop stops aliases m p;
          (s, cat) = score pol fs p
      in \<lparr>name = generic_name m, type = ty, risk_score = s, risk_category = cat,
          flags = map stop_rationale fs, recommendations = map stop_action fs,
          monitoring_required = concat (map (monitoring_of pol) (classes_of aliases m)),
          taper_required =
            (cat = RED \<or> (cat = YELLOW \<and>
               list_ex (\<lambda>k. k \<in> set (high_withdrawal_classes pol)) (classes_of aliases m)))\<rparr>)"

text \<open>
  Modelled from the spec: the request boundary of \<open>/analyze-patient\<close> (sections 6 and
  7). A body without an age or with no medication, or with a field out of the range of
  section 3, is answered with a validation error and the engine is not run; otherwise the
  engine runs on the fields as they were sent. \<open>engine_calls\<close> logs the runs.
\<close>

datatype engine_error = ValidationError | DataIntegrityError

record analyze_request =
  request_age :: "nat option"
  request_gender :: string
  request_is_frail :: bool
  request_cfs_score :: "nat option"
  request_life_expectancy :: string
  request_comorbidities :: "string list"
  request_medications :: "medication list"
  request_herbs :: "herb list"

record server_state =
  engine_calls :: "(patient_profile \<times> medication list \<times> herb list) list"

definition cfs_in_range :: "nat option \<Rightarrow> bool" where
  "cfs_in_range c = (case c of None \<Rightarrow> True | Some s \<Rightarrow> 1 \<le> s \<and> s \<le> 9)"

definition analyzePatientEndpoint ::
  "(patient_profile \<Rightarrow> medication list \<Rightarrow> herb list \<Rightarrow> 'r) \<Rightarrow> analyze_request \<Rightarrow>
   server_state \<Rightarrow> (engine_error + 'r) \<times> server_state" where
  "analyzePatientEndpoint engine req st =
     (case request_age req of
        None \<Rightarrow> (Inl ValidationError, st)
      | Some a \<Rightarrow>
          if request_medications req = [] \<or> a = 0 \<or> \<not> cfs_in_range (request_cfs_score req)
          then (Inl ValidationError, st)
          else
            (let p = \<lparr>profile_age = a, profile_gender = request_gender req,
                      profile_is_frail = request_is_frail req,
                      profile_cfs_score = request_cfs_score req,
                      profile_life_expectancy = request_life_expectancy req,
                      profile_comorbidities = request_comorbidities req\<rparr>
             in (Inr (engine p (request_medications req) (request_herbs req)),
                 st\<lparr>engine_calls := engine_calls st @
                      [(p, request_medications req, request_herbs req)]\<rparr>)))"

section \<open>Engine: herb-drug interactions (spec 4.3)\<close>

text \<open>
  Modelled from the spec: the interaction record of section 3. The client reads its
  fields (ResultsDashboard.jsx, InteractionModal.jsx) and tests \<open>evidence\<close> against the
  string \<open>simulated\<close>, so the evidence is a string here.
\<close>

datatype interaction_severity = Major | ModerateInteraction | Minor

record interaction =
  herb :: string
  drug :: string
  severity :: interaction_severity
  evidence :: string
  effect :: string
  mechanism :: "string option"

text \<open>
  Modelled from the spec: the curated table and its key (the table is not among the
  sources). The key of a pair of names is the unordered pair of the normalised names, held
  as the ordered pair with the smaller name first. Of the two readings section 4.3 allows
  for the evidence of a curated record (\<open>clinical\<close>, or a level recorded in the table), the
  model takes the first: an entry records no level, and a curated hit carries \<open>clinical\<close>.
\<close>

record curated_entry =
  curated_herb :: string
  curated_drug :: string
  curated_severity :: interaction_severity
  curated_effect :: string
  curated_mechanism :: "string option"

definition pair_key :: "string \<Rightarrow> string \<Rightarrow> string \<times> string" where
  "pair_key a b =
     (let x = normalize_name a; y = normalize_name b in if x \<le> y then (x, y) else (y, x))"

definition lookup_curated :: "curated_entry list \<Rightarrow> string \<Rightarrow> string \<Rightarrow> curated_entry option" where
  "lookup_curated curated a b =
     find (\<lambda>e. pair_key (curated_herb e) (curated_drug e) = pair_key a b) curated"

definition curated_record :: "curated_entry \<Rightarrow> interaction" where
  "curated_record e =
     \<lparr>herb = curated_herb e, drug = curated_drug e, severity = curated_severity e,
      evidence = ''clinical'',
      effect = curated_effect e, mechanism = curated_mechanism e\<rparr>"

text \<open>
  Modelled from the spec: \<open>checkInteractions\<close> (section 4.3). A pair the table holds
  yields the curated record. For any other pair the generative fallback is asked, with the
  key of the pair; its answer is stamped \<open>simulated\<close>, and when it fails or times out
  (\<open>None\<close>) the pair is left out and a notice is raised for it.
\<close>

datatype outcome = Resolved interaction | Incomplete "string \<times> string"

definition checkPair ::
  "curated_entry list \<Rightarrow> (string \<times> string \<Rightarrow> interaction option) \<Rightarrow> string \<Rightarrow> string \<Rightarrow> outcome" where
  "checkPair curated fallback a b =
     (case lookup_curated curated a b of
        Some e \<Rightarrow> Resolved (curated_record e)
      | None \<Rightarrow>
          (case fallback (pair_key a b) of
             Some r \<Rightarrow> Resolved (r\<lparr>evidence := ''simulated''\<rparr>)
           | None \<Rightarrow> Incomplete (pair_key a b)))"

definition outcomes ::
  "curated_entry list \<Rightarrow> (string \<times> string \<Rightarrow> interaction option) \<Rightarrow>
   'a entry_scheme list \<Rightarrow> 'b entry_scheme list \<Rightarrow> outcome list" where
  "outcomes curated fallback hs ms =
     concat (map (\<lambda>h. map (\<lambda>m. checkPair curated fallback (generic_name h) (generic_name m)) ms) hs)"

fun resolved :: "outcome list \<Rightarrow> interaction list" where
  "resolved [] = []"
| "resolved (Resolved r # os) = r # resolved os"
| "resolved (Incomplete k # os) = resolved os"

definition checkInteractions ::
  "curated_entry list \<Rightarrow> (string \<times> string \<Rightarrow> interaction option) \<Rightarrow>
   'a entry_scheme list \<Rightarrow> 'b entry_scheme list \<Rightarrow> interaction list" where
  "checkInteractions curated fallback hs ms = resolved (outcomes curated fallback hs ms)"

section \<open>Engine: the taper plan generator (spec 4.4)\<close>






text \<open>
  Modelled from the spec: the plan of the generator. It carries its provenance as a field
  of its own (section 4.4), its total duration is the week of its last step (section 3),
  and the deterministic plan of a class runs the state machine from week 0 and 100
  percent.
\<close>

datatype provenance = RuleBased | Augmented

record generated_plan = taper_plan +
  provenance :: provenance







section \<open>Sample inputs\<close>

definition alprazolam :: medication where
  "alprazolam =
     \<lparr>generic_name = ''Alprazolam'', brand_name = '''', dose = ''0.5mg'',
      frequency = ''twice daily'', duration = ''long_term'', indication = ''Anxiety''\<rparr>"

definition ginger :: herb where
  "ginger =
     \<lparr>generic_name = ''Ginger'', brand_name = '''', dose = '''', frequency = '''',
      duration = ''long_term'', intended_effect = ''Digestion''\<rparr>"

definition ginger_capsules :: medication where
  "ginger_capsules =
     \<lparr>generic_name = ''ginger'', brand_name = '''', dose = ''1g'',
      frequency = ''once daily'', duration = ''short_term'', indication = ''Nausea''\<rparr>"

definition patient82 :: form_data where
  "patient82 =
     \<lparr>age = ''82'', gender = ''female'', is_frail = True, cfs_score = ''6'',
      life_expectancy = ''2-5_years'', comorbidities = [''History of falls''],
      medications = [alprazolam], herbs = [ginger]\<rparr>"

definition patient82_ginger :: form_data where
  "patient82_ginger = patient82\<lparr>medications := [alprazolam, ginger_capsules]\<rparr>"

definition alprazolam_analysis :: medication_analysis where
  "alprazolam_analysis =
     \<lparr>name = ''Alprazolam'', type = Medication, risk_score = 8, risk_category = RED,
      flags = [''Increased fall risk''], recommendations = [''STOP''],
      monitoring_required = [], taper_required = True\<rparr>"

definition ginger_analysis :: medication_analysis where
  "ginger_analysis =
     \<lparr>name = ''Ginger'', type = Herb, risk_score = 7, risk_category = RED,
      flags = [], recommendations = [], monitoring_required = [], taper_required = True\<rparr>"

definition filled_form :: form_state where
  "filled_form =
     run [InputChange Age ''82'' False, SetCurrentMedication alprazolam, AddMedication]
       initialState"

definition empty_request :: analyze_request where
  "empty_request =
     \<lparr>request_age = None, request_gender = ''female'', request_is_frail = False,
      request_cfs_score = None, request_life_expectancy = ''2-5_years'',
      request_comorbidities = [], request_medications = [], request_herbs = []\<rparr>"

definition rule_based_plan :: "nat \<Rightarrow> generated_plan" where
  "rule_based_plan n =
     \<lparr>drug_class = ''Benzodiazepine'', risk_profile = ''High'',
      taper_strategy = ''Gradual reduction'', total_duration_weeks = 2 * n,
      steps = map (\<lambda>k. \<lparr>week = 2 * k, step_dose = ''reduced'',
                          percentage_of_original = 100 - (100 div n) * k,
                          instructions = ''Reduce the dose'', monitoring = ''Sleep, anxiety'',
                          withdrawal_symptoms_to_watch = [''Insomnia'']\<rparr>) [1..<Suc n],
      success_indicators = [], pause_criteria = [], reversal_criteria = [],
      monitoring_schedule = [], patient_education = [], provenance = RuleBased\<rparr>"

definition profile82 :: patient_profile where
  "profile82 =
     \<lparr>profile_age = 82, profile_gender = ''female'', profile_is_frail = True,
      profile_cfs_score = Some 6, profile_life_expectancy = ''2-5_years'',
      profile_comorbidities = [''History of falls'', ''Hypertension'']\<rparr>"

definition sample_aliases :: alias_table where
  "sample_aliases =
     [(''alprazolam'', [''Benzodiazepine'']), (''amlodipine'', [''Antihypertensive''])]"

definition sample_stops :: "stop_criterion list" where
  "sample_stops =
     [\<lparr>stop_id = ''K1'', stop_system = ''Falls'', stop_drug_classes = [''Benzodiazepine''],
       stop_condition = [OnPatient FallHistory], stop_rationale = ''Increased fall risk'',
       stop_severity = High, stop_action = ''STOP''\<rparr>]"

definition sample_starts :: "start_criterion list" where
  "sample_starts =
     [\<lparr>start_id = ''A4'', start_system = ''Cardiovascular'',
       start_drug_class = ''Antihypertensive'',
       start_condition = [HasComorbidity ''Hypertension''],
       start_indication = ''Blood pressure control'',
       start_recommendation = ''START antihypertensive'', start_evidence = Strong\<rparr>,
      \<lparr>start_id = ''X1'', start_system = ''CNS'',
       start_drug_class = ''Benzodiazepine'',
       start_condition = [HasComorbidity ''History of falls''],
       start_indication = ''None'',
       start_recommendation = ''START benzodiazepine'', start_evidence = ModerateEvidence\<rparr>]"

definition sample_scoring :: scoring_policy where
  "sample_scoring =
     \<lparr>high_weight = 4, moderate_weight = 2, frailty_bonus = 3, age_threshold = 85,
      age_bonus = 1, high_withdrawal_classes = [''Benzodiazepine''],
      monitoring_of = (\<lambda>k. [])\<rparr>"

definition sample_curated :: "curated_entry list" where
  "sample_curated =
     [\<lparr>curated_herb = ''Ginkgo'', curated_drug = ''Warfarin'', curated_severity = Major,
       curated_effect = ''Increased bleeding risk'', curated_mechanism = None\<rparr>]"

definition sample_fallback :: "string \<times> string \<Rightarrow> interaction option" where
  "sample_fallback k =
     Some \<lparr>herb = fst k, drug = snd k, severity = Minor, evidence = ''clinical'',
           effect = ''Possible additive sedation'', mechanism = None\<rparr>"






section \<open>Properties of the patient form\<close>

lemma list_all_filter_index: "list_all P xs \<Longrightarrow> list_all P (filter_index xs i)"
  by (induction xs i rule: filter_index.induct) simp_all

lemma handleInputChange_lists:
  "medications (formData (handleInputChange n v c st)) = medications (formData st) \<and>
   herbs (formData (handleInputChange n v c st)) = herbs (formData st)"
  by (cases n) simp_all

lemma handle_preserves:
  assumes "form_invariant (formData st)"
  shows "form_invariant (formData (handle e st))"
proof (cases e)
  case (InputChange n v c)
  then show ?thesis
    using assms handleInputChange_lists [of n v c st] by (simp add: form_invariant_def)
next
  case (ComorbidityToggle c)
  then show ?thesis using assms by (simp add: form_invariant_def handleComorbidityToggle_def)
next
  case (SetCurrentMedication m)
  then show ?thesis using assms by (simp add: form_invariant_def)
next
  case (SetCurrentHerb h)
  then show ?thesis using assms by (simp add: form_invariant_def)
next
  case AddMedication
  then show ?thesis using assms by (simp add: form_invariant_def addMedication_def)
next
  case (RemoveMedication i)
  then show ?thesis
    using assms by (simp add: form_invariant_def removeMedication_def list_all_filter_index)
next
  case AddHerb
  then show ?thesis using assms by (simp add: form_invariant_def addHerb_def)
next
  case (RemoveHerb i)
  then show ?thesis
    using assms by (simp add: form_invariant_def removeHerb_def list_all_filter_index)
next
  case Submit
  then show ?thesis using assms by (simp add: form_invariant_def handleSubmit_def)
qed

lemma run_preserves:
  "form_invariant (formData st) \<Longrightarrow> form_invariant (formData (run es st))"
  by (induction es arbitrary: st) (simp_all add: handle_preserves)

lemma initial_invariant: "form_invariant (formData initialState)"
  by (simp add: form_invariant_def initialState_def initialFormData_def)

text \<open>
  Claim C10. In every state the form can reach, each entry of the medications list has a
  non-empty generic name and a non-empty dose and each entry of the herbs list has a
  non-empty generic name. \<open>addMedication\<close>, \<open>addHerb\<close>, \<open>removeMedication\<close> and
  \<open>removeHerb\<close> preserve this, and an add with an incomplete current entry leaves the
  form data and the current entry as they were.
\<close>

theorem form_lists_invariant:
  "form_invariant (formData (run es initialState)) \<and>
   (form_invariant (formData st) \<longrightarrow>
      form_invariant (formData (addMedication st)) \<and>
      form_invariant (formData (addHerb st)) \<and>
      form_invariant (formData (removeMedication i st)) \<and>
      form_invariant (formData (removeHerb i st))) \<and>
   (generic_name (currentMedication st) = [] \<or> dose (currentMedication st) = [] \<longrightarrow>
      formData (addMedication st) = formData st \<and>
      currentMedication (addMedication st) = currentMedication st) \<and>
   (generic_name (currentHerb st) = [] \<longrightarrow>
      formData (addHerb st) = formData st \<and> currentHerb (addHerb st) = currentHerb st)"
proof -
  have reach: "form_invariant (formData (run es initialState))"
    by (rule run_preserves [OF initial_invariant])
  have pres: "form_invariant (formData st) \<Longrightarrow>
      form_invariant (formData (addMedication st)) \<and>
      form_invariant (formData (addHerb st)) \<and>
      form_invariant (formData (removeMedication i st)) \<and>
      form_invariant (formData (removeHerb i st))"
    using handle_preserves [of st AddMedication] handle_preserves [of st AddHerb]
      handle_preserves [of st "RemoveMedication i"] handle_preserves [of st "RemoveHerb i"]
    by simp
  have refM: "generic_name (currentMedication st) = [] \<or> dose (currentMedication st) = [] \<Longrightarrow>
      formData (addMedication st) = formData st \<and>
      currentMedication (addMedication st) = currentMedication st"
    by (auto simp add: addMedication_def)
  have refH: "generic_name (currentHerb st) = [] \<Longrightarrow>
      formData (addHerb st) = formData st \<and> currentHerb (addHerb st) = currentHerb st"
    by (simp add: addHerb_def)
  from reach pres refM refH show ?thesis by blast
qed

text \<open>The theorem at a concrete input.\<close>

theorem form_lists_invariant_witness:
  "form_invariant (formData filled_form) \<and>
   medications (formData filled_form) = [alprazolam] \<and>
   generic_name (currentMedication filled_form) = [] \<and>
   generic_name (currentHerb filled_form) = [] \<and>
   form_invariant (formData (addMedication filled_form)) \<and>
   form_invariant (formData (removeMedication 0 filled_form)) \<and>
   formData (addMedication filled_form) = formData filled_form \<and>
   formData (addHerb filled_form) = formData filled_form"
  using form_lists_invariant
    [of "[InputChange Age ''82'' False, SetCurrentMedication alprazolam, AddMedication]"
        filled_form 0]
  by (simp add: filled_form_def initialState_def initialFormData_def addMedication_def
        alprazolam_def emptyMedication_def emptyHerb_def)

text \<open>
  Claim C4. A request without an age or without a medication is answered with a
  validation error and the engine is not run; when the engine does run, it runs on the age
  that was sent. On the client, \<open>handleSubmit\<close> passes the form data on exactly when the
  age field is non-empty and the medications list is non-empty; otherwise it raises its
  alert and passes nothing on.
\<close>

theorem submit_gate:
  "(request_age req = None \<or> request_medications req = [] \<longrightarrow>
      analyzePatientEndpoint engine req s = (Inl ValidationError, s)) \<and>
   (\<forall>r s'. analyzePatientEndpoint engine req s = (Inr r, s') \<longrightarrow>
      (\<exists>a p. request_age req = Some a \<and> profile_age p = a \<and>
         r = engine p (request_medications req) (request_herbs req) \<and>
         engine_calls s' = engine_calls s @ [(p, request_medications req, request_herbs req)])) \<and>
   (age (formData st) \<noteq> [] \<and> medications (formData st) \<noteq> [] \<longrightarrow>
      handleSubmit st = st\<lparr>submitted := submitted st @ [formData st]\<rparr>) \<and>
   (\<not> (age (formData st) \<noteq> [] \<and> medications (formData st) \<noteq> []) \<longrightarrow>
      handleSubmit st =
        st\<lparr>alerts := alerts st @ [''Please fill in age and add at least one medication'']\<rparr>) \<and>
   (submitted (handleSubmit st) \<noteq> submitted st \<longleftrightarrow>
      age (formData st) \<noteq> [] \<and> medications (formData st) \<noteq> [])"
proof -
  have server1: "request_age req = None \<or> request_medications req = [] \<Longrightarrow>
      analyzePatientEndpoint engine req s = (Inl ValidationError, s)"
    by (auto simp add: analyzePatientEndpoint_def split: option.splits)
  have server2: "\<And>r s'. analyzePatientEndpoint engine req s = (Inr r, s') \<Longrightarrow>
      (\<exists>a p. request_age req = Some a \<and> profile_age p = a \<and>
         r = engine p (request_medications req) (request_herbs req) \<and>
         engine_calls s' = engine_calls s @ [(p, request_medications req, request_herbs req)])"
    by (auto simp add: analyzePatientEndpoint_def Let_def split: option.splits if_splits)
  have client1: "age (formData st) \<noteq> [] \<and> medications (formData st) \<noteq> [] \<Longrightarrow>
      handleSubmit st = st\<lparr>submitted := submitted st @ [formData st]\<rparr>"
    by (simp add: handleSubmit_def)
  have client2: "\<not> (age (formData st) \<noteq> [] \<and> medications (formData st) \<noteq> []) \<Longrightarrow>
      handleSubmit st =
        st\<lparr>alerts := alerts st @ [''Please fill in age and add at least one medication'']\<rparr>"
    by (auto simp add: handleSubmit_def)
  have client3: "submitted (handleSubmit st) \<noteq> submitted st \<longleftrightarrow>
      age (formData st) \<noteq> [] \<and> medications (formData st) \<noteq> []"
    by (auto simp add: handleSubmit_def)
  from server1 server2 client1 client2 client3 show ?thesis by blast
qed

text \<open>The theorem at a concrete input.\<close>

theorem submit_gate_witness:
  "analyzePatientEndpoint (\<lambda>p ms hs. length ms) empty_request \<lparr>engine_calls = []\<rparr> =
     (Inl ValidationError, \<lparr>engine_calls = []\<rparr>) \<and>
   submitted (handleSubmit filled_form) = [formData filled_form] \<and>
   handleSubmit initialState =
     initialState\<lparr>alerts := [''Please fill in age and add at least one medication'']\<rparr>"
  using submit_gate [of empty_request "\<lambda>p ms hs. length ms" "\<lparr>engine_calls = []\<rparr>" filled_form]
    submit_gate [of empty_request "\<lambda>p ms hs. length ms" "\<lparr>engine_calls = []\<rparr>" initialState]
  by (simp add: empty_request_def filled_form_def initialState_def initialFormData_def
        addMedication_def alprazolam_def emptyMedication_def emptyHerb_def)

section \<open>Properties of the taper modal\<close>

lemma posted_fetch:
  "posted (fetchTaperPlan toLowerCase post med pd st) =
     posted st @ [request toLowerCase med pd]"
  by (simp add: fetchTaperPlan_def Let_def split: sum.splits)

text \<open>
  Claim C8. Every call of \<open>fetchTaperPlan\<close> posts one body, whose keys are exactly
  \<open>drug_name\<close>, \<open>current_dose\<close>, \<open>duration_on_medication\<close>, \<open>patient_cfs_score\<close>,
  \<open>patient_age\<close> and \<open>comorbidities\<close>; \<open>drug_name\<close> is the name of the selected
  analysis, \<open>patient_age\<close> the age of the submitted patient and \<open>comorbidities\<close> the
  comorbidities of the submitted patient.
\<close>

theorem taper_request_body:
  "posted (fetchTaperPlan toLowerCase post med pd st) =
     posted st @ [request toLowerCase med pd] \<and>
   map fst (request toLowerCase med pd) =
     [''drug_name'', ''current_dose'', ''duration_on_medication'', ''patient_cfs_score'',
      ''patient_age'', ''comorbidities''] \<and>
   map_of (request toLowerCase med pd) ''drug_name'' = Some (JString (name med)) \<and>
   map_of (request toLowerCase med pd) ''patient_age'' = Some (JString (age pd)) \<and>
   map_of (request toLowerCase med pd) ''comorbidities'' = Some (JStrings (comorbidities pd))"
  by (simp add: posted_fetch) (simp add: request_def)

text \<open>
  Claim C9, as amended. When the name of the analysis matches the generic name of no
  submitted medication, case-insensitively, the request is still posted, with
  \<open>current_dose\<close> set to \<open>1 tablet\<close> and \<open>duration_on_medication\<close> to \<open>long_term\<close>, and
  no error is raised for the gap. The herbs list is never read, so this is the case of a
  herb analysis unless a submitted medication carries the name of the herb.
\<close>

theorem taper_defaults_when_unmatched:
  assumes "\<forall>m \<in> set (medications pd). toLowerCase (generic_name m) \<noteq> toLowerCase (name med)"
  shows "posted (fetchTaperPlan toLowerCase post med pd st) =
           posted st @ [request toLowerCase med pd] \<and>
         map_of (request toLowerCase med pd) ''current_dose'' = Some (JString ''1 tablet'') \<and>
         map_of (request toLowerCase med pd) ''duration_on_medication'' =
           Some (JString ''long_term'') \<and>
         error (fetchTaperPlan toLowerCase post med pd st) =
           (case post (request toLowerCase med pd) of
              Inl message \<Rightarrow> Some message
            | Inr plan \<Rightarrow> error st) \<and>
         request toLowerCase med (pd\<lparr>herbs := hs\<rparr>) = request toLowerCase med pd"
proof -
  from assms have none: "medData toLowerCase med pd = None"
    by (simp add: medData_def find_None_iff)
  have err: "error (fetchTaperPlan toLowerCase post med pd st) =
           (case post (request toLowerCase med pd) of
              Inl message \<Rightarrow> Some message
            | Inr plan \<Rightarrow> error st)"
    by (simp add: fetchTaperPlan_def Let_def split: sum.splits)
  have herbs_unread: "request toLowerCase med (pd\<lparr>herbs := hs\<rparr>) = request toLowerCase med pd"
    by (simp add: request_def medData_def)
  have dose_default:
    "map_of (request toLowerCase med pd) ''current_dose'' = Some (JString ''1 tablet'')"
    using none by (simp add: request_def or_default_def)
  have duration_default:
    "map_of (request toLowerCase med pd) ''duration_on_medication'' =
       Some (JString ''long_term'')"
    using none by (simp add: request_def or_default_def)
  from posted_fetch [of toLowerCase post med pd st] dose_default duration_default err
    herbs_unread
  show ?thesis by simp
qed

text \<open>The amended claim at a herb analysis that no medication matches.\<close>

theorem taper_defaults_when_unmatched_witness:
  "type ginger_analysis = Herb \<and>
   posted (fetchTaperPlan asciiLowerCase (\<lambda>r. Inl ''Network Error'') ginger_analysis patient82
            (initialModal :: taper_plan modal_state)) =
     [request asciiLowerCase ginger_analysis patient82] \<and>
   map_of (request asciiLowerCase ginger_analysis patient82) ''current_dose'' =
     Some (JString ''1 tablet'') \<and>
   map_of (request asciiLowerCase ginger_analysis patient82) ''duration_on_medication'' =
     Some (JString ''long_term'')"
proof -
  have unmatched: "\<forall>m \<in> set (medications patient82).
      asciiLowerCase (generic_name m) \<noteq> asciiLowerCase (name ginger_analysis)"
    by code_simp
  show ?thesis
    using taper_defaults_when_unmatched [OF unmatched, of "\<lambda>r. Inl ''Network Error''"
        "initialModal :: taper_plan modal_state"]
    by (simp add: ginger_analysis_def initialModal_def)
qed

text \<open>
  The claim as first stated has every herb analysis unmatched. A patient who lists ginger
  both as a medication and as a herb gives a herb analysis that the search matches: its
  request carries the dose and the duration of the medication.
\<close>

theorem herb_analysis_matched_counterexample:
  "type ginger_analysis = Herb \<and>
   generic_name ginger = name ginger_analysis \<and>
   herbs patient82_ginger = [ginger] \<and>
   medData asciiLowerCase ginger_analysis patient82_ginger = Some ginger_capsules \<and>
   map_of (request asciiLowerCase ginger_analysis patient82_ginger) ''current_dose'' =
     Some (JString ''1g'') \<and>
   map_of (request asciiLowerCase ginger_analysis patient82_ginger) ''duration_on_medication'' =
     Some (JString ''short_term'')"
  by code_simp

text \<open>
  Claim C1, as amended. The modal marks a received plan as AI-generated exactly when the
  plan has more than four steps; no other field of the plan, whatever fields it carries,
  takes part. When the request fails the mark stays as it was.
\<close>

theorem badge_follows_step_count:
  "isAiGenerated (fetchTaperPlan toLowerCase post med pd st) =
     (case post (request toLowerCase med pd) of
        Inr plan \<Rightarrow> length (steps plan) > 4
      | Inl message \<Rightarrow> isAiGenerated st)"
  by (simp add: fetchTaperPlan_def Let_def split: sum.splits)

text \<open>
  The claim as first stated takes the mark from a provenance field. Two plans that both
  carry the provenance \<open>RuleBased\<close> are marked differently, by their step counts alone.
\<close>

theorem rule_based_plan_badged_counterexample:
  "provenance (rule_based_plan 5) = RuleBased \<and>
   provenance (rule_based_plan 4) = RuleBased \<and>
   isAiGenerated (fetchTaperPlan asciiLowerCase (\<lambda>r. Inr (rule_based_plan 5)) alprazolam_analysis patient82
                    initialModal) \<and>
   \<not> isAiGenerated (fetchTaperPlan asciiLowerCase (\<lambda>r. Inr (rule_based_plan 4)) alprazolam_analysis patient82
                    initialModal)"
  by (simp add: fetchTaperPlan_def Let_def rule_based_plan_def initialModal_def)

section \<open>Properties of the engine\<close>

lemma clamp_score_range: "0 \<le> clamp_score x \<and> clamp_score x \<le> 10"
  by (simp add: clamp_score_def)

lemma category_of_thresholds:
  "(category_of s = RED \<longleftrightarrow> 7 \<le> s) \<and>
   (category_of s = YELLOW \<longleftrightarrow> 4 \<le> s \<and> s \<le> 6) \<and>
   (category_of s = GREEN \<longleftrightarrow> s < 4)"
  by (auto simp add: category_of_def)

lemma analyseEntry_score:
  "risk_score (analyseEntry pol stops aliases ty p m) =
     fst (score pol (matchStop stops aliases m p) p) \<and>
   risk_category (analyseEntry pol stops aliases ty p m) =
     snd (score pol (matchStop stops aliases m p) p)"
  by (simp add: analyseEntry_def Let_def split: prod.splits)

text \<open>
  Claim C2. The risk score of every medication analysis lies between 0 and 10, and its
  risk category is a function of the score: RED exactly from 7, YELLOW exactly from 4 to
  6, GREEN exactly below 4.
\<close>

theorem risk_score_and_category:
  "0 \<le> risk_score (analyseEntry pol stops aliases ty p m) \<and>
   risk_score (analyseEntry pol stops aliases ty p m) \<le> 10 \<and>
   risk_category (analyseEntry pol stops aliases ty p m) =
     category_of (risk_score (analyseEntry pol stops aliases ty p m)) \<and>
   (risk_category (analyseEntry pol stops aliases ty p m) = RED \<longleftrightarrow>
      7 \<le> risk_score (analyseEntry pol stops aliases ty p m)) \<and>
   (risk_category (analyseEntry pol stops aliases ty p m) = YELLOW \<longleftrightarrow>
      4 \<le> risk_score (analyseEntry pol stops aliases ty p m) \<and>
      risk_score (analyseEntry pol stops aliases ty p m) \<le> 6) \<and>
   (risk_category (analyseEntry pol stops aliases ty p m) = GREEN \<longleftrightarrow>
      risk_score (analyseEntry pol stops aliases ty p m) < 4)"
proof -
  define fs where "fs = matchStop stops aliases m p"
  define s where "s = clamp_score (sum_list (map (flag_weight pol) fs) + context_modifier pol p)"
  have sc: "score pol fs p = (s, category_of s)"
    by (simp add: score_def s_def Let_def)
  have rs: "risk_score (analyseEntry pol stops aliases ty p m) = s"
    using analyseEntry_score [of pol stops aliases ty p m] sc by (simp add: fs_def)
  have rc: "risk_category (analyseEntry pol stops aliases ty p m) = category_of s"
    using analyseEntry_score [of pol stops aliases ty p m] sc by (simp add: fs_def)
  have range: "0 \<le> s \<and> s \<le> 10"
    unfolding s_def by (rule clamp_score_range)
  show ?thesis
    unfolding rs rc using range category_of_thresholds [of s] by simp
qed

text \<open>The theorem at a concrete input.\<close>

theorem risk_score_and_category_witness:
  "risk_score (analyseEntry sample_scoring sample_stops sample_aliases Medication profile82
                 alprazolam) = 7 \<and>
   risk_category (analyseEntry sample_scoring sample_stops sample_aliases Medication profile82
                 alprazolam) = RED"
proof -
  have "risk_score (analyseEntry sample_scoring sample_stops sample_aliases Medication profile82
                 alprazolam) = 7"
    by code_simp
  then show ?thesis
    using risk_score_and_category [of sample_scoring sample_stops sample_aliases Medication
        profile82 alprazolam]
    by auto
qed

lemma class_present_iff:
  "class_present aliases meds k \<longleftrightarrow> (\<exists>m \<in> set meds. k \<in> set (classes_of aliases m))"
  by (simp add: class_present_def list_ex_iff)

text \<open>
  Claim C7. \<open>matchStart\<close> yields the advice of a START criterion exactly when the
  condition of the criterion holds for the patient and no listed medication belongs to the
  drug class of the criterion; so no medication of the list belongs to the drug class of
  any advice it yields.
\<close>

theorem matchStart_exact:
  "(r \<in> set (matchStart starts aliases meds p) \<longleftrightarrow>
      (\<exists>c \<in> set starts. r = advise c \<and> list_all (check_patient p) (start_condition c) \<and>
         (\<forall>m \<in> set meds. start_drug_class c \<notin> set (classes_of aliases m)))) \<and>
   (\<forall>a \<in> set (matchStart starts aliases meds p). \<forall>m \<in> set meds.
      advice_drug_class a \<notin> set (classes_of aliases m))"
proof -
  have iff: "r \<in> set (matchStart starts aliases meds p) \<longleftrightarrow>
      (\<exists>c \<in> set starts. r = advise c \<and> list_all (check_patient p) (start_condition c) \<and>
         (\<forall>m \<in> set meds. start_drug_class c \<notin> set (classes_of aliases m)))" for r
    by (auto simp add: matchStart_def start_applies_def class_present_iff)
  have absent: "\<forall>m \<in> set meds. advice_drug_class a \<notin> set (classes_of aliases m)"
    if "a \<in> set (matchStart starts aliases meds p)" for a
  proof -
    from that iff [of a] obtain c where "a = advise c"
      and "\<forall>m \<in> set meds. start_drug_class c \<notin> set (classes_of aliases m)"
      by blast
    then show ?thesis by (simp add: advise_def)
  qed
  from iff absent show ?thesis by blast
qed

text \<open>The theorem at a concrete input.\<close>

theorem matchStart_exact_witness:
  "matchStart sample_starts sample_aliases [alprazolam] profile82 = [advise (hd sample_starts)] \<and>
   advice_drug_class (advise (hd sample_starts)) = ''Antihypertensive'' \<and>
   ''Antihypertensive'' \<notin> set (classes_of sample_aliases alprazolam) \<and>
   classes_of sample_aliases alprazolam = [''Benzodiazepine'']"
proof -
  have run: "matchStart sample_starts sample_aliases [alprazolam] profile82 =
      [advise (hd sample_starts)]"
    by code_simp
  have cls: "classes_of sample_aliases alprazolam = [''Benzodiazepine'']"
    by code_simp
  have adv: "advice_drug_class (advise (hd sample_starts)) = ''Antihypertensive''"
    by code_simp
  from matchStart_exact [of "advise (hd sample_starts)" sample_starts sample_aliases
      "[alprazolam]" profile82] run
  have "\<forall>m \<in> set [alprazolam].
      advice_drug_class (advise (hd sample_starts)) \<notin> set (classes_of sample_aliases m)"
    by simp
  with run cls adv show ?thesis by simp
qed

lemma pair_key_commute: "pair_key a b = pair_key b a"
  by (auto simp add: pair_key_def Let_def)

lemma lookup_curated_commute: "lookup_curated curated a b = lookup_curated curated b a"
  by (simp add: lookup_curated_def pair_key_commute [of a b])

lemma checkPair_commute: "checkPair curated fallback a b = checkPair curated fallback b a"
  unfolding checkPair_def lookup_curated_commute [of curated a b] pair_key_commute [of a b] ..

lemma set_resolved: "set (resolved os) = {r. Resolved r \<in> set os}"
  by (induction os rule: resolved.induct) auto

lemma set_outcomes:
  "set (outcomes curated fallback hs ms) =
     {checkPair curated fallback (generic_name h) (generic_name m) | h m.
        h \<in> set hs \<and> m \<in> set ms}"
  by (auto simp add: outcomes_def)

text \<open>
  Claim C5. The outcome for a pair of names does not depend on the order of the two
  names, and neither does the set of records of \<open>checkInteractions\<close> depend on which of
  its two lists is given first.
\<close>

theorem checkInteractions_symmetric:
  "checkPair curated fallback h d = checkPair curated fallback d h \<and>
   set (checkInteractions curated fallback hs ms) =
     set (checkInteractions curated fallback ms hs)"
proof -
  have "set (outcomes curated fallback hs ms) = set (outcomes curated fallback ms hs)"
    unfolding set_outcomes using checkPair_commute [of curated fallback] by metis
  then have "set (checkInteractions curated fallback hs ms) =
     set (checkInteractions curated fallback ms hs)"
    by (simp add: checkInteractions_def set_resolved)
  with checkPair_commute [of curated fallback h d] show ?thesis by simp
qed

text \<open>The theorem at a concrete input.\<close>

theorem checkInteractions_symmetric_witness:
  "checkPair sample_curated sample_fallback ''Warfarin'' ''GINKGO'' =
     Resolved (curated_record (hd sample_curated)) \<and>
   checkPair sample_curated sample_fallback ''GINKGO'' ''Warfarin'' =
     Resolved (curated_record (hd sample_curated))"
proof -
  have "checkPair sample_curated sample_fallback ''Warfarin'' ''GINKGO'' =
     Resolved (curated_record (hd sample_curated))"
    by code_simp
  with checkInteractions_symmetric [of sample_curated sample_fallback "''Warfarin''" "''GINKGO''"
      "[] :: herb list" "[] :: medication list"]
  show ?thesis by simp
qed
















end
